theory Spec2Isabelle
  imports Complex_Main
begin

section \<open>Diagnostics and domain objects of the polyfile reader\<close>

text \<open>
  The classes of \<^verbatim>\<open>plain_model_inspector/io/polyfile.py\<close>. Python's \<^verbatim>\<open>int\<close> is
  \<^typ>\<open>int\<close>, \<^verbatim>\<open>str\<close> is \<^typ>\<open>string\<close>. The interpreter only moves floating-point
  values around and never computes with them, so the type of floats is a type
  parameter \<open>'f\<close>.
\<close>

datatype ParseErrorLevel = FATAL | ERROR | WARNING | INFO

record ParseMsg =
  level :: ParseErrorLevel
  line :: "int \<times> int"
  column :: "int \<times> int"
  reason :: string

record DescriptionHeader =
  content :: string

record CommentLine =
  comment_content :: string

record Metadata =
  name :: string
  n_rows :: int
  n_columns :: int

record 'f Point =
  pt_x :: 'f
  pt_y :: 'f
  pt_z :: "'f option"
  pt_data :: "'f list"

record 'f PolyObject =
  obj_description :: "DescriptionHeader option"
  obj_metadata :: Metadata
  obj_points :: "'f Point list"

subsection \<open>Tokens and trees of the parser library\<close>

text \<open>
  The terminals of \<^verbatim>\<open>polyfile_grammar\<close> that are kept in a tree (terminals whose name
  starts with an underscore are filtered out by the parser), and its rules.
  \<^verbatim>\<open>comment_line\<close> and \<^verbatim>\<open>point_line\<close> are declared with \<^verbatim>\<open>?\<close> and always have one
  child, so they are inlined and never label a tree. The terminals are prefixed
  with \<open>T_\<close> (\<open>INT\<close> is syntax of HOL).
\<close>

datatype terminal = T_COMMENT | T_EMPTY_LINES | T_WS | T_NAME | T_INT | T_FLOAT | T_INVALID_BLOCK

record Token =
  tok_type :: terminal
  tok_value :: string
  tok_line :: int
  tok_column :: int
  tok_end_line :: int
  tok_end_column :: int

datatype rule =
    Rule_description_header
  | Rule_name_line
  | Rule_dimensions_valid
  | Rule_dimensions_missing_column
  | Rule_dimensions_exceeding_columns
  | Rule_dimensions_line
  | Rule_metadata
  | Rule_point
  | Rule_point_invalid
  | Rule_points
  | Rule_poly_block
  | Rule_invalid_block
  | Rule_poly_file

text \<open>The field \<^verbatim>\<open>data: Any\<close> of \<^verbatim>\<open>TokenData\<close> holds what the transformer puts there.\<close>

datatype 'f lit = LStr string | LInt int | LFloat 'f

datatype 'f TokenData = TokenData (token: Token) (data: "'f lit")

text \<open>
  A tree as the interpreter meets it, after the literal transformer: the children
  of a \<^verbatim>\<open>Tree\<close> are trees, tokens the transformer has no callback for, and the
  objects it has put in place of the other tokens.
  Trees carry no position information (the parser is built without
  \<^verbatim>\<open>propagate_positions\<close>).
\<close>

datatype 'f node =
    Tree rule "'f node list"
  | Tok Token
  | Msg ParseMsg
  | Comment CommentLine
  | Data "'f TokenData"

subsection \<open>Exceptions and results\<close>

text \<open>
  The Python exceptions the code can raise. \<open>IllTyped\<close> is the boundary of the
  model: the tree is not one the grammar produces and Python would carry on
  with a value of an unexpected type; nothing is claimed there.
\<close>

datatype error = AttributeError | IndexError | TypeError | ValueError | VisitError | IllTyped

definition and_then :: "error + 'a \<Rightarrow> ('a \<Rightarrow> error + 'b) \<Rightarrow> error + 'b" where
  "and_then m f = (case m of Inl e \<Rightarrow> Inl e | Inr a \<Rightarrow> f a)"

fun collect :: "(error + 'a) list \<Rightarrow> error + 'a list" where
  "collect [] = Inr []"
| "collect (m # ms) = and_then m (\<lambda>a. and_then (collect ms) (\<lambda>as. Inr (a # as)))"

text \<open>\<^verbatim>\<open>xs[i]\<close> with Python's negative indices, and the slice \<^verbatim>\<open>xs[i:]\<close>.\<close>

definition item :: "'a list \<Rightarrow> int \<Rightarrow> error + 'a" where
  "item xs i =
     (if 0 \<le> i \<and> i < int (length xs) then Inr (xs ! nat i)
      else if i < 0 \<and> - i \<le> int (length xs) then Inr (xs ! nat (int (length xs) + i))
      else Inl IndexError)"

definition slice_from :: "'a list \<Rightarrow> int \<Rightarrow> 'a list" where
  "slice_from xs i =
     (if 0 \<le> i then drop (nat i) xs else drop (nat (int (length xs) + i)) xs)"

text \<open>What a visit method returns: a pair of an object and a list of messages
  (most methods), a bare message (\<^verbatim>\<open>invalid_block\<close>) or \<^verbatim>\<open>None\<close> (\<^verbatim>\<open>poly_file\<close>).\<close>

datatype 'f pyval =
    VNone
  | VStr string
  | VDims int int
  | VDescription DescriptionHeader
  | VMetadata Metadata
  | VPoint "'f Point"
  | VPoints "'f Point list"
  | VPolyObject "'f PolyObject"

datatype 'f result =
    RPair "'f pyval" "ParseMsg list"
  | RMsg ParseMsg
  | RNone

text \<open>Unpacking \<^verbatim>\<open>(a, msgs) = self.visit(e)\<close>: a \<^verbatim>\<open>ParseMsg\<close> iterates over its four
  fields, \<^verbatim>\<open>None\<close> is not iterable.\<close>

fun unpack :: "'f result \<Rightarrow> error + ('f pyval \<times> ParseMsg list)" where
  "unpack (RPair a ms) = Inr (a, ms)"
| "unpack (RMsg m) = Inl ValueError"
| "unpack RNone = Inl TypeError"

subsection \<open>Attribute access on the children of a tree\<close>

fun token_of :: "'f node \<Rightarrow> error + Token" where
  "token_of (Data td) = Inr (token td)"
| "token_of _ = Inl AttributeError"

text \<open>\<^verbatim>\<open>.data\<close> of a tree is its rule name, a string no caller expects.\<close>

fun data_of :: "'f node \<Rightarrow> error + 'f lit" where
  "data_of (Data td) = Inr (data td)"
| "data_of (Tree r cs) = Inl IllTyped"
| "data_of _ = Inl AttributeError"

fun content_of :: "'f node \<Rightarrow> error + string" where
  "content_of (Comment c) = Inr (comment_content c)"
| "content_of _ = Inl AttributeError"

text \<open>\<^verbatim>\<open>.line\<close> and \<^verbatim>\<open>.column\<close> exist on a \<^verbatim>\<open>ParseMsg\<close> too, but hold pairs there.\<close>

fun line_of :: "'f node \<Rightarrow> error + int" where
  "line_of (Tok t) = Inr (tok_line t)"
| "line_of (Msg m) = Inl IllTyped"
| "line_of _ = Inl AttributeError"

fun column_of :: "'f node \<Rightarrow> error + int" where
  "column_of (Tok t) = Inr (tok_column t)"
| "column_of (Msg m) = Inl IllTyped"
| "column_of _ = Inl AttributeError"

fun end_line_of :: "'f node \<Rightarrow> error + int" where
  "end_line_of (Tok t) = Inr (tok_end_line t)"
| "end_line_of _ = Inl AttributeError"

fun end_column_of :: "'f node \<Rightarrow> error + int" where
  "end_column_of (Tok t) = Inr (tok_end_column t)"
| "end_column_of _ = Inl AttributeError"

definition message_from_tokens ::
  "'f node list \<Rightarrow> ParseErrorLevel \<Rightarrow> string \<Rightarrow> error + ParseMsg" where
  "message_from_tokens tokens lvl rsn =
     and_then (and_then (item tokens 0) line_of) (\<lambda>l0.
     and_then (and_then (item tokens (- 1)) end_line_of) (\<lambda>l1.
     and_then (and_then (item tokens 0) column_of) (\<lambda>c0.
     and_then (and_then (item tokens (- 1)) end_column_of) (\<lambda>c1.
       Inr \<lparr>level = lvl, line = (l0, l1), column = (c0, c1), reason = rsn\<rparr>))))"

section \<open>The literal transformer\<close>

text \<open>\<^verbatim>\<open>str.rstrip()\<close> removes trailing whitespace; these are the whitespace
  characters below code point 256.\<close>

definition is_space :: "char \<Rightarrow> bool" where
  "is_space c = ((of_char c :: nat) \<in> {9, 10, 11, 12, 13, 28, 29, 30, 31, 32, 133, 160})"

definition rstrip :: "string \<Rightarrow> string" where
  "rstrip str = rev (dropWhile is_space (rev str))"

text \<open>\<^verbatim>\<open>int(str(token))\<close> on the text of an \<^verbatim>\<open>INT\<close> token, which the lexer makes of
  decimal digits only; on any other text the conversion is reported as failed.\<close>

definition is_digit :: "char \<Rightarrow> bool" where
  "is_digit c = (48 \<le> (of_char c :: nat) \<and> (of_char c :: nat) \<le> 57)"

definition py_int :: "string \<Rightarrow> int option" where
  "py_int str =
     (if str \<noteq> [] \<and> list_all is_digit str
      then Some (foldl (\<lambda>acc c. 10 * acc + (int (of_char c) - 48)) 0 str)
      else None)"

text \<open>
  The callbacks of \<^verbatim>\<open>PolyFileLiteralTransformer\<close>, chosen by the type of the token.
  \<open>float_of\<close> stands for Python's \<^verbatim>\<open>float\<close> on the text of a \<^verbatim>\<open>FLOAT\<close> token.
  There is no callback for \<^verbatim>\<open>INVALID_BLOCK\<close>: the token stays as it is.
\<close>

definition transform_token :: "(string \<Rightarrow> 'f) \<Rightarrow> Token \<Rightarrow> error + 'f node" where
  "transform_token float_of t =
     (case tok_type t of
        T_COMMENT \<Rightarrow> Inr (Comment \<lparr>comment_content = rstrip (drop 1 (tok_value t))\<rparr>)
      | T_EMPTY_LINES \<Rightarrow>
          and_then (message_from_tokens [Tok t :: 'f node] WARNING
                      ''Unexpected empty lines will be ignored.'')
            (\<lambda>m. Inr (Msg m))
      | T_WS \<Rightarrow>
          and_then (message_from_tokens [Tok t :: 'f node] WARNING
                      ''Unexpected empty whitespace will be ignored.'')
            (\<lambda>m. Inr (Msg m))
      | T_NAME \<Rightarrow> Inr (Data (TokenData t (LStr (tok_value t))))
      | T_INT \<Rightarrow>
          (case py_int (tok_value t) of
             None \<Rightarrow> Inl VisitError
           | Some i \<Rightarrow> Inr (Data (TokenData t (LInt i))))
      | T_FLOAT \<Rightarrow> Inr (Data (TokenData t (LFloat (float_of (tok_value t)))))
      | T_INVALID_BLOCK \<Rightarrow> Inr (Tok t))"

text \<open>
  The output of the parser: trees whose leaves are tokens. The transformer works
  bottom-up; a tree keeps its rule and gets the transformed children.
\<close>

datatype parse_tree = PTree rule "parse_tree list" | PTok Token

fun transform :: "(string \<Rightarrow> 'f) \<Rightarrow> parse_tree \<Rightarrow> error + 'f node" where
  "transform float_of (PTree r cs) =
     and_then (collect (map (transform float_of) cs)) (\<lambda>cs'. Inr (Tree r cs'))"
| "transform float_of (PTok t) = transform_token float_of t"

section \<open>The interpreter\<close>

record interp =
  has_z_value :: bool
  min_n_columns :: int
  expected_n_columns :: int

text \<open>\<^verbatim>\<open>PolyFileInterpreter.__init__\<close>.\<close>

definition init :: "bool \<Rightarrow> interp" where
  "init hz =
     (let m = (if \<not> hz then 2 else 3)
      in \<lparr>has_z_value = hz, min_n_columns = m, expected_n_columns = m\<rparr>)"

type_synonym 'f outcome = "(error + 'f result) \<times> interp"
type_synonym 'f visitor = "'f node \<Rightarrow> interp \<Rightarrow> 'f outcome"

fun is_msg :: "'f node \<Rightarrow> bool" where
  "is_msg (Msg m) = True"
| "is_msg _ = False"

fun the_msgs :: "'f node list \<Rightarrow> ParseMsg list" where
  "the_msgs [] = []"
| "the_msgs (Msg m # xs) = m # the_msgs xs"
| "the_msgs (_ # xs) = the_msgs xs"

definition filter_msgs :: "'f node list \<Rightarrow> 'f node list \<times> ParseMsg list" where
  "filter_msgs input = (filter (\<lambda>x. \<not> is_msg x) input, the_msgs input)"

fun join :: "string \<Rightarrow> string list \<Rightarrow> string" where
  "join sep [] = []"
| "join sep [x] = x"
| "join sep (x # y # ys) = x @ sep @ join sep (y # ys)"

text \<open>
  Each visit method takes the children of its tree and the interpreter, and
  returns what Python returns (or the exception raised) and the interpreter
  afterwards. A method that calls \<^verbatim>\<open>self.visit\<close> takes the visitor \<open>v\<close> as a parameter;
  \<open>visit\<close> below ties the knot.
\<close>

definition description_header :: "'f node list \<Rightarrow> interp \<Rightarrow> 'f outcome" where
  "description_header children s =
     (case filter_msgs children of (comments, msgs) \<Rightarrow>
        (and_then (collect (map content_of comments)) (\<lambda>lines.
           Inr (RPair (VDescription \<lparr>content = join [CHR 0x0A] lines\<rparr>) msgs)), s))"

text \<open>\<^verbatim>\<open>(a, msgs) = self.visit(e)\<close>: the visit, then the unpacking of its result.\<close>

definition visit_pair ::
  "'f visitor \<Rightarrow> 'f node \<Rightarrow> interp \<Rightarrow> (error + ('f pyval \<times> ParseMsg list)) \<times> interp" where
  "visit_pair v e s =
     (case v e s of (Inl er, s1) \<Rightarrow> (Inl er, s1) | (Inr r, s1) \<Rightarrow> (unpack r, s1))"

definition metadata :: "'f visitor \<Rightarrow> 'f node list \<Rightarrow> interp \<Rightarrow> 'f outcome" where
  "metadata v children s =
     (case filter_msgs children of (elems, msgs) \<Rightarrow>
       (case item elems 0 of Inl e \<Rightarrow> (Inl e, s) | Inr e0 \<Rightarrow>
         (case visit_pair v e0 s of (Inl e, s1) \<Rightarrow> (Inl e, s1)
          | (Inr (nm, name_msgs), s1) \<Rightarrow>
           (case item elems 1 of Inl e \<Rightarrow> (Inl e, s1) | Inr e1 \<Rightarrow>
             (case visit_pair v e1 s1 of (Inl e, s2) \<Rightarrow> (Inl e, s2)
              | (Inr (dims, dimensions_msgs), s2) \<Rightarrow>
               (case (nm, dims) of
                  (VStr n, VDims r c) \<Rightarrow>
                    (Inr (RPair (VMetadata \<lparr>name = n, n_rows = r, n_columns = c\<rparr>)
                            (msgs @ name_msgs @ dimensions_msgs)), s2)
                | _ \<Rightarrow> (Inl IllTyped, s2)))))))"

definition name_line :: "'f node list \<Rightarrow> interp \<Rightarrow> 'f outcome" where
  "name_line children s =
     (case filter_msgs children of (elems, msgs) \<Rightarrow>
        (and_then (item elems 0) (\<lambda>e0.
         and_then (data_of e0) (\<lambda>d.
           (case d of LStr n \<Rightarrow> Inr (RPair (VStr n) msgs) | _ \<Rightarrow> Inl IllTyped))), s))"

definition dimensions_line :: "'f visitor \<Rightarrow> 'f node list \<Rightarrow> interp \<Rightarrow> 'f outcome" where
  "dimensions_line v children s =
     (case item children (- 1) of Inl e \<Rightarrow> (Inl e, s) | Inr c \<Rightarrow>
       (case visit_pair v c s of (Inl e, s1) \<Rightarrow> (Inl e, s1)
        | (Inr (res, msgs), s1) \<Rightarrow>
         (if length children > 1
          then (and_then (item children 0) (\<lambda>c0.
                and_then (token_of c0) (\<lambda>t.
                and_then (message_from_tokens [Tok t :: 'f node] WARNING
                   ''Whitespace at the beginning of the dimensions is ignored.'') (\<lambda>m.
                  Inr (RPair res (msgs @ [m]))))), s1)
          else (Inr (RPair res msgs), s1))))"

definition dimensions_valid :: "'f node list \<Rightarrow> interp \<Rightarrow> 'f outcome" where
  "dimensions_valid children s =
     (and_then (item children 0) (\<lambda>c0.
      and_then (data_of c0) (\<lambda>d0.
      and_then (item children 1) (\<lambda>c1.
      and_then (data_of c1) (\<lambda>d1.
        (case (d0, d1) of
           (LInt r, LInt c) \<Rightarrow>
             (if c < min_n_columns s
              then and_then (token_of c1) (\<lambda>t.
                   and_then (message_from_tokens [Tok t :: 'f node] ERROR
    ''The number of specified columns is smaller than the minimum expected number.'') (\<lambda>m.
                     Inr (RPair (VDims r c) [m])))
              else Inr (RPair (VDims r c) []))
         | _ \<Rightarrow> Inl IllTyped))))), s)"

definition dimensions_exceeding_columns ::
  "'f visitor \<Rightarrow> 'f node list \<Rightarrow> interp \<Rightarrow> 'f outcome" where
  "dimensions_exceeding_columns v children s =
     (case item children 0 of Inl e \<Rightarrow> (Inl e, s) | Inr c0 \<Rightarrow>
       (case visit_pair v c0 s of (Inl e, s1) \<Rightarrow> (Inl e, s1)
        | (Inr (res, msgs), s1) \<Rightarrow>
         (and_then (item children 1) (\<lambda>c1.
          and_then (token_of c1) (\<lambda>t.
          and_then (message_from_tokens [Tok t :: 'f node] WARNING
             ''Too many columns specified, the excess columns will be ignored.'') (\<lambda>m.
            Inr (RPair res (msgs @ [m]))))), s1)))"

definition dimensions_missing_column :: "'f node list \<Rightarrow> interp \<Rightarrow> 'f outcome" where
  "dimensions_missing_column children s =
     (and_then (item children 0) (\<lambda>c0.
      and_then (token_of c0) (\<lambda>t.
      and_then (message_from_tokens [Tok t :: 'f node] ERROR
        ''Only one dimension is specified, the number of columns will not be validated'') (\<lambda>m.
      and_then (data_of c0) (\<lambda>d.
        (case d of LInt r \<Rightarrow> Inr (RPair (VDims r (- 1)) [m]) | _ \<Rightarrow> Inl IllTyped))))), s)"

text \<open>The message of \<^verbatim>\<open>point\<close> spans from its first to its last child.\<close>

definition row_message :: "'f node list \<Rightarrow> string \<Rightarrow> error + ParseMsg" where
  "row_message children rsn =
     and_then (item children 0) (\<lambda>a.
     and_then (token_of a) (\<lambda>ta.
     and_then (item children (- 1)) (\<lambda>b.
     and_then (token_of b) (\<lambda>tb.
       message_from_tokens [Tok ta :: 'f node, Tok tb] ERROR rsn))))"

text \<open>The fields of \<^verbatim>\<open>Point\<close> are declared as floats.\<close>

fun float_of_lit :: "'f lit \<Rightarrow> error + 'f" where
  "float_of_lit (LFloat a) = Inr a"
| "float_of_lit _ = Inl IllTyped"

definition make_point ::
  "'f lit \<Rightarrow> 'f lit \<Rightarrow> 'f lit option \<Rightarrow> 'f lit list \<Rightarrow> error + 'f Point" where
  "make_point vx vy vz dat =
     and_then (float_of_lit vx) (\<lambda>fx.
     and_then (float_of_lit vy) (\<lambda>fy.
     and_then (case vz of None \<Rightarrow> Inr None
               | Some a \<Rightarrow> and_then (float_of_lit a) (\<lambda>b. Inr (Some b))) (\<lambda>fz.
     and_then (collect (map float_of_lit dat)) (\<lambda>fdat.
       Inr \<lparr>pt_x = fx, pt_y = fy, pt_z = fz, pt_data = fdat\<rparr>))))"

definition point_msgs :: "'f node list \<Rightarrow> int \<Rightarrow> interp \<Rightarrow> error + ParseMsg list" where
  "point_msgs children n_values s =
     (if n_values < expected_n_columns s
      then and_then (row_message children
   ''Not as many columns provided as specified, the created point will be missing data.'')
             (\<lambda>m. Inr [m])
      else if n_values > expected_n_columns s
      then and_then (row_message children
   ''Too many columns provided as specified, the created point will contain too much data.'')
             (\<lambda>m. Inr [m])
      else Inr [])"

definition point :: "'f node list \<Rightarrow> interp \<Rightarrow> 'f outcome" where
  "point children s =
     (and_then (collect (map data_of children)) (\<lambda>values.
      and_then (point_msgs children (int (length values)) s) (\<lambda>msgs.
      and_then (if has_z_value s \<and> int (length values) \<ge> 3
                then and_then (item values 2) (\<lambda>a. Inr (Some a))
                else Inr None) (\<lambda>z_value.
      and_then (item values 0) (\<lambda>vx.
      and_then (item values 1) (\<lambda>vy.
      and_then (make_point vx vy z_value (slice_from values (min_n_columns s))) (\<lambda>p.
        Inr (RPair (VPoint p) msgs))))))), s)"

definition point_invalid :: "'f node list \<Rightarrow> interp \<Rightarrow> 'f outcome" where
  "point_invalid children s =
     (and_then (item children 0) (\<lambda>c0.
      and_then (token_of c0) (\<lambda>t.
      and_then (message_from_tokens [Tok t :: 'f node] ERROR
        ''No point can be constructed from only a single value, row will be skipped'') (\<lambda>m.
        Inr (RPair VNone [m])))), s)"

text \<open>The loop of \<^verbatim>\<open>points\<close>: \<^verbatim>\<open>None\<close> is skipped, a \<^verbatim>\<open>Point\<close> is appended.\<close>

fun points_loop ::
  "'f visitor \<Rightarrow> 'f node list \<Rightarrow> 'f Point list \<Rightarrow> ParseMsg list \<Rightarrow> interp \<Rightarrow> 'f outcome" where
  "points_loop v [] pts msgs s = (Inr (RPair (VPoints pts) msgs), s)"
| "points_loop v (e # es) pts msgs s =
     (case visit_pair v e s of (Inl er, s1) \<Rightarrow> (Inl er, s1)
      | (Inr (pt, pt_msgs), s1) \<Rightarrow>
       (case pt of
          VPoint p \<Rightarrow> points_loop v es (pts @ [p]) (msgs @ pt_msgs) s1
        | VNone \<Rightarrow> points_loop v es pts (msgs @ pt_msgs) s1
        | _ \<Rightarrow> (Inl IllTyped, s1)))"

definition points :: "'f visitor \<Rightarrow> 'f node list \<Rightarrow> interp \<Rightarrow> 'f outcome" where
  "points v children s =
     (case filter_msgs children of (elems, msgs) \<Rightarrow> points_loop v elems [] msgs s)"

text \<open>\<^verbatim>\<open>tuple(self.visit(e) for e in elems)\<close>.\<close>

fun visit_each ::
  "'f visitor \<Rightarrow> 'f node list \<Rightarrow> interp \<Rightarrow> (error + 'f result list) \<times> interp" where
  "visit_each v [] s = (Inr [], s)"
| "visit_each v (e # es) s =
     (case v e s of (Inl er, s1) \<Rightarrow> (Inl er, s1)
      | (Inr r, s1) \<Rightarrow>
       (case visit_each v es s1 of (Inl er, s2) \<Rightarrow> (Inl er, s2)
        | (Inr rs, s2) \<Rightarrow> (Inr (r # rs), s2)))"

text \<open>The fields of \<^verbatim>\<open>PolyObject\<close> are declared as an optional \<^verbatim>\<open>DescriptionHeader\<close>, a
  \<^verbatim>\<open>Metadata\<close> and a list of \<^verbatim>\<open>Point\<close>.\<close>

definition make_poly_object ::
  "'f pyval \<Rightarrow> 'f pyval \<Rightarrow> 'f pyval \<Rightarrow> ParseMsg list \<Rightarrow> error + 'f result" where
  "make_poly_object d m p msgs =
     (case (d, m, p) of
        (VDescription h, VMetadata md, VPoints ps) \<Rightarrow>
          Inr (RPair (VPolyObject
                 \<lparr>obj_description = Some h, obj_metadata = md, obj_points = ps\<rparr>) msgs)
      | (VNone, VMetadata md, VPoints ps) \<Rightarrow>
          Inr (RPair (VPolyObject
                 \<lparr>obj_description = None, obj_metadata = md, obj_points = ps\<rparr>) msgs)
      | _ \<Rightarrow> Inl IllTyped)"

definition poly_block :: "'f visitor \<Rightarrow> 'f node list \<Rightarrow> interp \<Rightarrow> 'f outcome" where
  "poly_block v children s =
     (case filter_msgs children of (elems, msgs) \<Rightarrow>
       (case visit_each v elems s of (Inl e, s1) \<Rightarrow> (Inl e, s1)
        | (Inr components, s1) \<Rightarrow>
         (case components of
            [c0, c1, c2] \<Rightarrow>
              (and_then (unpack c0) (\<lambda>(d, description_msgs).
               and_then (unpack c1) (\<lambda>(m, metadata_msgs).
               and_then (unpack c2) (\<lambda>(p, pt_msgs).
                 make_poly_object d m p
                   (msgs @ description_msgs @ metadata_msgs @ pt_msgs)))), s1)
          | [c1, c2] \<Rightarrow>
              (and_then (unpack c1) (\<lambda>(m, metadata_msgs).
               and_then (unpack c2) (\<lambda>(p, pt_msgs).
                 make_poly_object VNone m p (msgs @ [] @ metadata_msgs @ pt_msgs))), s1)
          | _ \<Rightarrow> (Inl ValueError, s1))))"

definition invalid_block :: "'f node list \<Rightarrow> interp \<Rightarrow> 'f outcome" where
  "invalid_block children s =
     (and_then (message_from_tokens children ERROR ''Invalid block of data will be ignored.'')
        (\<lambda>m. Inr (RMsg m)), s)"

text \<open>The body of \<^verbatim>\<open>poly_file\<close> is \<^verbatim>\<open>pass\<close>.\<close>

definition poly_file :: "'f node list \<Rightarrow> interp \<Rightarrow> 'f outcome" where
  "poly_file children s = (Inr RNone, s)"

subsection \<open>Dispatch\<close>

text \<open>The methods call the visitor on children of their tree only; these rules let the
  definition of \<open>visit\<close> see that.\<close>

lemma item_in_set: "item xs i = Inr a \<Longrightarrow> a \<in> set xs"
  by (auto simp: item_def split: if_splits)

lemma filter_msgs_subset: "filter_msgs cs = (elems, msgs) \<Longrightarrow> set elems \<subseteq> set cs"
  by (auto simp: filter_msgs_def)

lemma visit_pair_cong [fundef_cong]:
  "e = e' \<Longrightarrow> s = s' \<Longrightarrow> (\<And>st. v e' st = v' e' st) \<Longrightarrow> visit_pair v e s = visit_pair v' e' s'"
  by (simp add: visit_pair_def)

lemma metadata_cong [fundef_cong]:
  assumes "cs = cs'" "s = s'" "\<And>e st. e \<in> set cs' \<Longrightarrow> v e st = v' e st"
  shows "metadata v cs s = metadata v' cs' s'"
proof -
  obtain elems msgs where f: "filter_msgs cs' = (elems, msgs)" by (cases "filter_msgs cs'")
  have sub: "set elems \<subseteq> set cs'" using f by (rule filter_msgs_subset)
  have vp: "\<And>e st. e \<in> set elems \<Longrightarrow> visit_pair v e st = visit_pair v' e st"
    using assms(3) sub by (auto simp: visit_pair_def)
  show ?thesis
    unfolding metadata_def assms(1) assms(2) f
    by (auto split: sum.splits prod.splits dest!: item_in_set simp: vp)
qed

lemma dimensions_line_cong [fundef_cong]:
  assumes "cs = cs'" "s = s'" "\<And>e st. e \<in> set cs' \<Longrightarrow> v e st = v' e st"
  shows "dimensions_line v cs s = dimensions_line v' cs' s'"
proof -
  have vp: "\<And>e st. e \<in> set cs' \<Longrightarrow> visit_pair v e st = visit_pair v' e st"
    using assms(3) by (auto simp: visit_pair_def)
  show ?thesis
    unfolding dimensions_line_def assms(1) assms(2)
    by (auto split: sum.splits prod.splits dest!: item_in_set simp: vp)
qed

lemma dimensions_exceeding_columns_cong [fundef_cong]:
  assumes "cs = cs'" "s = s'" "\<And>e st. e \<in> set cs' \<Longrightarrow> v e st = v' e st"
  shows "dimensions_exceeding_columns v cs s = dimensions_exceeding_columns v' cs' s'"
proof -
  have vp: "\<And>e st. e \<in> set cs' \<Longrightarrow> visit_pair v e st = visit_pair v' e st"
    using assms(3) by (auto simp: visit_pair_def)
  show ?thesis
    unfolding dimensions_exceeding_columns_def assms(1) assms(2)
    by (auto split: sum.splits prod.splits dest!: item_in_set simp: vp)
qed

lemma points_loop_cong:
  "(\<And>e st. e \<in> set es \<Longrightarrow> v e st = v' e st) \<Longrightarrow> points_loop v es pts msgs s = points_loop v' es pts msgs s"
proof (induction es arbitrary: pts msgs s)
  case Nil
  then show ?case by simp
next
  case (Cons e es)
  have vp: "\<And>st. visit_pair v e st = visit_pair v' e st"
    using Cons.prems by (simp add: visit_pair_def)
  have ih: "\<And>pts msgs s. points_loop v es pts msgs s = points_loop v' es pts msgs s"
    using Cons by simp
  show ?case by (simp add: vp ih split: prod.splits sum.splits pyval.splits)
qed

lemma points_cong [fundef_cong]:
  assumes "cs = cs'" "s = s'" "\<And>e st. e \<in> set cs' \<Longrightarrow> v e st = v' e st"
  shows "points v cs s = points v' cs' s'"
  unfolding points_def assms(1) assms(2)
  by (auto simp: filter_msgs_def intro!: points_loop_cong assms(3))

lemma visit_each_cong:
  "(\<And>e st. e \<in> set es \<Longrightarrow> v e st = v' e st) \<Longrightarrow> visit_each v es s = visit_each v' es s"
proof (induction es arbitrary: s)
  case Nil
  then show ?case by simp
next
  case (Cons e es)
  have ih: "\<And>s. visit_each v es s = visit_each v' es s" using Cons by simp
  have hd: "\<And>st. v e st = v' e st" using Cons.prems by simp
  show ?case by (simp add: ih hd split: prod.splits sum.splits)
qed

lemma poly_block_cong [fundef_cong]:
  assumes "cs = cs'" "s = s'" "\<And>e st. e \<in> set cs' \<Longrightarrow> v e st = v' e st"
  shows "poly_block v cs s = poly_block v' cs' s'"
proof -
  have "visit_each v (filter (\<lambda>x. \<not> is_msg x) cs') s' = visit_each v' (filter (\<lambda>x. \<not> is_msg x) cs') s'"
    by (rule visit_each_cong) (simp add: assms(3))
  then show ?thesis
    unfolding poly_block_def assms(1) assms(2) by (simp add: filter_msgs_def)
qed

text \<open>
  \<^verbatim>\<open>Interpreter.visit\<close> calls the method named by the rule of the tree. A child that is
  not a tree has no rule to look up.
\<close>

function visit :: "'f node \<Rightarrow> interp \<Rightarrow> 'f outcome" where
  "visit (Tree Rule_description_header cs) s = description_header cs s"
| "visit (Tree Rule_metadata cs) s = metadata visit cs s"
| "visit (Tree Rule_name_line cs) s = name_line cs s"
| "visit (Tree Rule_dimensions_line cs) s = dimensions_line visit cs s"
| "visit (Tree Rule_dimensions_valid cs) s = dimensions_valid cs s"
| "visit (Tree Rule_dimensions_exceeding_columns cs) s = dimensions_exceeding_columns visit cs s"
| "visit (Tree Rule_dimensions_missing_column cs) s = dimensions_missing_column cs s"
| "visit (Tree Rule_point cs) s = point cs s"
| "visit (Tree Rule_point_invalid cs) s = point_invalid cs s"
| "visit (Tree Rule_points cs) s = points visit cs s"
| "visit (Tree Rule_poly_block cs) s = poly_block visit cs s"
| "visit (Tree Rule_invalid_block cs) s = invalid_block cs s"
| "visit (Tree Rule_poly_file cs) s = poly_file cs s"
| "visit (Tok t) s = (Inl AttributeError, s)"
| "visit (Msg m) s = (Inl AttributeError, s)"
| "visit (Comment c) s = (Inl AttributeError, s)"
| "visit (Data td) s = (Inl IllTyped, s)"
  by pat_completeness auto

termination
  by (relation "measure (\<lambda>(t, s). size t)") (auto simp: less_Suc_eq_le size_list_estimation')


section \<open>Running the two passes, and the inputs of the examples\<close>

text \<open>The tests run the transformer and then the interpreter on the parser's tree:
  \<^verbatim>\<open>PolyFileInterpreter(..).visit(PolyFileLiteralTransformer().transform(tokens))\<close>.\<close>

definition transform_and_visit ::
  "(string \<Rightarrow> 'f) \<Rightarrow> interp \<Rightarrow> parse_tree \<Rightarrow> error + 'f result" where
  "transform_and_visit float_of s tree =
     (case transform float_of tree of Inl e \<Rightarrow> Inl e | Inr t \<Rightarrow> fst (visit t s))"

text \<open>The messages of a result, for statements about their order.\<close>

fun diags_of :: "error + 'f result \<Rightarrow> ParseMsg list" where
  "diags_of (Inr (RPair a ms)) = ms"
| "diags_of _ = []"

text \<open>A message spanning from the start of one token to the end of another.\<close>

definition span_msg :: "ParseErrorLevel \<Rightarrow> Token \<Rightarrow> Token \<Rightarrow> string \<Rightarrow> ParseMsg" where
  "span_msg lvl first final rsn =
     \<lparr>level = lvl, line = (tok_line first, tok_end_line final),
      column = (tok_column first, tok_end_column final), reason = rsn\<rparr>"

definition mk_token :: "terminal \<Rightarrow> string \<Rightarrow> int \<Rightarrow> int \<Rightarrow> int \<Rightarrow> int \<Rightarrow> Token" where
  "mk_token ty txt l c el ec =
     \<lparr>tok_type = ty, tok_value = txt, tok_line = l, tok_column = c,
      tok_end_line = el, tok_end_column = ec\<rparr>"

text \<open>What the transformer makes of a \<^verbatim>\<open>FLOAT\<close> token whose text converts to \<open>a\<close>.\<close>

definition float_data :: "Token \<times> 'f \<Rightarrow> 'f node" where
  "float_data p = Data (TokenData (fst p) (LFloat (snd p)))"

text \<open>
  The value a plain decimal text (digits, a point, digits) denotes. Python's \<^verbatim>\<open>float\<close>
  gives this value whenever it is a binary64 number, as for the texts of the
  examples below; it serves as the conversion in closed examples.
\<close>

definition decimal_value :: "string \<Rightarrow> real" where
  "decimal_value str =
     (let ip = takeWhile (\<lambda>c. c \<noteq> CHR ''.'') str;
          fp = drop 1 (dropWhile (\<lambda>c. c \<noteq> CHR ''.'') str)
      in real_of_int (case py_int ip of None \<Rightarrow> 0 | Some i \<Rightarrow> i) +
         real_of_int (case py_int fp of None \<Rightarrow> 0 | Some i \<Rightarrow> i) / 10 ^ length fp)"

text \<open>The transformed tree of the dimension line \<^verbatim>\<open>5 12 18 7\<close>: two integers too many.\<close>

definition exceeding_example :: "real node" where
  "exceeding_example =
     Tree Rule_dimensions_exceeding_columns
       [Tree Rule_dimensions_valid
          [Data (TokenData (mk_token T_INT ''5'' 1 1 1 2) (LInt 5)),
           Data (TokenData (mk_token T_INT ''12'' 1 3 1 5) (LInt 12))],
        Data (TokenData (mk_token T_INT ''18'' 1 6 1 8) (LInt 18)),
        Data (TokenData (mk_token T_INT ''7'' 1 9 1 10) (LInt 7))]"

text \<open>The parser's tree of the dimension line \<^verbatim>\<open>"      5    23\n"\<close> of the tests, which
  starts with whitespace.\<close>

definition ws_dimensions_line :: parse_tree where
  "ws_dimensions_line =
     PTree Rule_dimensions_line
       [PTok (mk_token T_WS ''      '' 1 1 1 7),
        PTree Rule_dimensions_valid
          [PTok (mk_token T_INT ''5'' 1 7 1 8), PTok (mk_token T_INT ''23'' 1 12 1 14)]]"

text \<open>The round-trip block of the specification:
  \<^verbatim>\<open>"* desc\nmyName\n3 3\n1.0 2.0 3.0\n4.0 5.0 6.0\n7.0 8.0 9.0\n"\<close>.\<close>

definition float_row :: "int \<Rightarrow> string \<Rightarrow> string \<Rightarrow> string \<Rightarrow> parse_tree" where
  "float_row l a b c =
     PTree Rule_point
       [PTok (mk_token T_FLOAT a l 1 l 4), PTok (mk_token T_FLOAT b l 5 l 8),
        PTok (mk_token T_FLOAT c l 9 l 12)]"

definition roundtrip_block :: parse_tree where
  "roundtrip_block =
     PTree Rule_poly_block
       [PTree Rule_description_header [PTok (mk_token T_COMMENT ''* desc'' 1 1 1 7)],
        PTree Rule_metadata
          [PTree Rule_name_line [PTok (mk_token T_NAME ''myName'' 2 1 2 7)],
           PTree Rule_dimensions_line
             [PTree Rule_dimensions_valid
                [PTok (mk_token T_INT ''3'' 3 1 3 2), PTok (mk_token T_INT ''3'' 3 3 3 4)]]],
        PTree Rule_points
          [float_row 4 ''1.0'' ''2.0'' ''3.0'',
           float_row 5 ''4.0'' ''5.0'' ''6.0'',
           float_row 6 ''7.0'' ''8.0'' ''9.0'']]"

text \<open>Two rows of a single value with a blank line between them:
  \<^verbatim>\<open>"1.0\n\n2.0\n"\<close>.\<close>

definition blank_between_rows :: parse_tree where
  "blank_between_rows =
     PTree Rule_points
       [PTree Rule_point_invalid [PTok (mk_token T_FLOAT ''1.0'' 1 1 1 4)],
        PTok (mk_token T_EMPTY_LINES [CHR 0x0A] 2 1 3 1),
        PTree Rule_point_invalid [PTok (mk_token T_FLOAT ''2.0'' 3 1 3 4)]]"

text \<open>A name line with leading whitespace, a blank line, and a dimension line:
  \<^verbatim>\<open>"  myName\n\n3 3\n"\<close>.\<close>

definition blank_after_name :: parse_tree where
  "blank_after_name =
     PTree Rule_metadata
       [PTree Rule_name_line
          [PTok (mk_token T_WS ''  '' 1 1 1 3), PTok (mk_token T_NAME ''myName'' 1 3 1 9)],
        PTok (mk_token T_EMPTY_LINES [CHR 0x0A] 2 1 3 1),
        PTree Rule_dimensions_line
          [PTree Rule_dimensions_valid
             [PTok (mk_token T_INT ''3'' 3 1 3 2), PTok (mk_token T_INT ''3'' 3 3 3 4)]]]"

text \<open>The parser's tree of the dimension line \<^verbatim>\<open>" 5\n"\<close>: whitespace, then a single
  integer.\<close>

definition ws_missing_column_line :: parse_tree where
  "ws_missing_column_line =
     PTree Rule_dimensions_line
       [PTok (mk_token T_WS '' '' 1 1 1 2),
        PTree Rule_dimensions_missing_column [PTok (mk_token T_INT ''5'' 1 2 1 3)]]"

text \<open>The last block of the file in \<^verbatim>\<open>test_poly_file_is_tokenized_correctly\<close>, a line that
  reads as a name followed by a line that is no part of a block:
  \<^verbatim>\<open>"woo this should be an invalid block\nbecause this should not exist.\n"\<close>.\<close>

definition name_led_invalid_block :: parse_tree where
  "name_led_invalid_block =
     PTree Rule_invalid_block
       [PTree Rule_name_line
          [PTok (mk_token T_NAME ''woo this should be an invalid block'' 1 1 1 36)],
        PTok (mk_token T_INVALID_BLOCK (''because this should not exist.'' @ [CHR 0x0A])
                2 1 3 1)]"

text \<open>The transformed trees of the last two inputs.\<close>

definition rows_children :: "real node list" where
  "rows_children =
     [Tree Rule_point_invalid
        [Data (TokenData (mk_token T_FLOAT ''1.0'' 1 1 1 4) (LFloat 1))],
      Msg (span_msg WARNING (mk_token T_EMPTY_LINES [CHR 0x0A] 2 1 3 1)
             (mk_token T_EMPTY_LINES [CHR 0x0A] 2 1 3 1)
             ''Unexpected empty lines will be ignored.''),
      Tree Rule_point_invalid
        [Data (TokenData (mk_token T_FLOAT ''2.0'' 3 1 3 4) (LFloat 2))]]"

definition name_children :: "real node list" where
  "name_children =
     [Tree Rule_name_line
        [Msg (span_msg WARNING (mk_token T_WS ''  '' 1 1 1 3) (mk_token T_WS ''  '' 1 1 1 3)
                ''Unexpected empty whitespace will be ignored.''),
         Data (TokenData (mk_token T_NAME ''myName'' 1 3 1 9) (LStr ''myName''))],
      Msg (span_msg WARNING (mk_token T_EMPTY_LINES [CHR 0x0A] 2 1 3 1)
             (mk_token T_EMPTY_LINES [CHR 0x0A] 2 1 3 1)
             ''Unexpected empty lines will be ignored.''),
      Tree Rule_dimensions_line
        [Tree Rule_dimensions_valid
           [Data (TokenData (mk_token T_INT ''3'' 3 1 3 2) (LInt 3)),
            Data (TokenData (mk_token T_INT ''3'' 3 3 3 4) (LInt 3))]]]"

text \<open>The transformed tree of the round-trip block, for a conversion \<open>float_of\<close>.\<close>

definition float_row_tree :: "(string \<Rightarrow> 'f) \<Rightarrow> int \<Rightarrow> string \<Rightarrow> string \<Rightarrow> string \<Rightarrow> 'f node" where
  "float_row_tree float_of l a b c =
     Tree Rule_point
       [Data (TokenData (mk_token T_FLOAT a l 1 l 4) (LFloat (float_of a))),
        Data (TokenData (mk_token T_FLOAT b l 5 l 8) (LFloat (float_of b))),
        Data (TokenData (mk_token T_FLOAT c l 9 l 12) (LFloat (float_of c)))]"

definition roundtrip_tree :: "(string \<Rightarrow> 'f) \<Rightarrow> 'f node" where
  "roundtrip_tree float_of =
     Tree Rule_poly_block
       [Tree Rule_description_header [Comment \<lparr>comment_content = '' desc''\<rparr>],
        Tree Rule_metadata
          [Tree Rule_name_line
             [Data (TokenData (mk_token T_NAME ''myName'' 2 1 2 7) (LStr ''myName''))],
           Tree Rule_dimensions_line
             [Tree Rule_dimensions_valid
                [Data (TokenData (mk_token T_INT ''3'' 3 1 3 2) (LInt 3)),
                 Data (TokenData (mk_token T_INT ''3'' 3 3 3 4) (LInt 3))]]],
        Tree Rule_points
          [float_row_tree float_of 4 ''1.0'' ''2.0'' ''3.0'',
           float_row_tree float_of 5 ''4.0'' ''5.0'' ''6.0'',
           float_row_tree float_of 6 ''7.0'' ''8.0'' ''9.0'']]"

section \<open>Basic facts\<close>

lemma and_then_Inr: "and_then (Inr a) f = f a"
  by (simp add: and_then_def)

lemma and_then_Inl: "and_then (Inl e) f = Inl e"
  by (simp add: and_then_def)

lemma item_first: "item (a # as) 0 = Inr a"
  by (simp add: item_def)

lemma item_second: "item (a # b # bs) 1 = Inr b"
  by (simp add: item_def)

lemma item_third: "item (a # b # c # cs) 2 = Inr c"
  by (simp add: item_def)

lemma item_last: "as \<noteq> [] \<Longrightarrow> item as (- 1) = Inr (last as)"
  by (cases as rule: rev_cases) (auto simp: item_def nth_append)

lemma item_last_Cons: "item (a # as) (- 1) = Inr (last (a # as))"
  by (rule item_last) simp

lemma item_Nil: "item [] i = Inl IndexError"
  by (simp add: item_def)

lemmas step_simps =
  and_then_Inr and_then_Inl item_first item_second item_third item_last_Cons item_Nil

lemma message_from_single:
  "message_from_tokens [Tok t] lvl rsn = Inr (span_msg lvl t t rsn)"
  by (simp add: message_from_tokens_def span_msg_def step_simps)

lemma message_from_two:
  "message_from_tokens [Tok t, Tok u] lvl rsn = Inr (span_msg lvl t u rsn)"
  by (simp add: message_from_tokens_def span_msg_def step_simps)

section \<open>The whole-file entry point\<close>

text \<open>
  C1. The specification asks that interpreting a \<^verbatim>\<open>poly_file\<close> tree gives one
  (object or nothing, diagnostics) pair per top-level block, in file order. The
  method \<^verbatim>\<open>poly_file\<close> is documented as the entry point for whole files, but its
  body is \<^verbatim>\<open>pass\<close>: whatever the blocks of the file are, visiting the tree returns
  \<^verbatim>\<open>None\<close>, no object and no diagnostic.
\<close>

theorem poly_file_returns_none:
  "visit (Tree Rule_poly_file cs) s = (Inr RNone, s)"
  by (simp add: poly_file_def)

section \<open>Dimension lines\<close>

lemma dimensions_line_missing_column_after_whitespace:
  "visit (Tree Rule_dimensions_line
       [Msg w, Tree Rule_dimensions_missing_column [Data (TokenData t (LInt r))]]) s =
     (Inl AttributeError, s)"
  by (simp add: dimensions_line_def dimensions_missing_column_def visit_pair_def
      message_from_single step_simps)

lemma py_int_5: "py_int ''5'' = Some 5"
  by (simp add: py_int_def is_digit_def)

lemma transform_ws_missing_column_line:
  "transform float_of ws_missing_column_line =
     Inr (Tree Rule_dimensions_line
       [Msg (span_msg WARNING (mk_token T_WS '' '' 1 1 1 2) (mk_token T_WS '' '' 1 1 1 2)
               ''Unexpected empty whitespace will be ignored.''),
        Tree Rule_dimensions_missing_column
          [Data (TokenData (mk_token T_INT ''5'' 1 2 1 3) (LInt 5))]])"
  by (simp add: ws_missing_column_line_def transform_token_def mk_token_def
      message_from_single step_simps py_int_5)

text \<open>
  C8. The specification asks that every dimension line with a single integer
  \<open>r\<close> yields \<open>(r, -1)\<close> and exactly one ERROR. The rule \<^verbatim>\<open>dimensions_missing_column\<close>
  does so, and a \<^verbatim>\<open>dimensions_line\<close> that consists of it alone passes the result on.
  The grammar also lets the line start with whitespace (\<^verbatim>\<open>WS?\<close>); there
  \<^verbatim>\<open>dimensions_line\<close> reads \<^verbatim>\<open>.token\<close> of the \<^verbatim>\<open>ParseMsg\<close> the transformer has put in
  place of the whitespace, and the interpretation of the line, \<^verbatim>\<open>" 5\n"\<close> for one,
  ends in an \<^verbatim>\<open>AttributeError\<close>: no pair and no diagnostic is returned.
\<close>

theorem dimensions_missing_column_sentinel:
  "visit (Tree Rule_dimensions_missing_column [Data (TokenData t (LInt r))]) s =
     (Inr (RPair (VDims r (- 1))
        [span_msg ERROR t t
           ''Only one dimension is specified, the number of columns will not be validated'']), s)
   \<and> visit (Tree Rule_dimensions_line
        [Tree Rule_dimensions_missing_column [Data (TokenData t (LInt r))]]) s =
     (Inr (RPair (VDims r (- 1))
        [span_msg ERROR t t
           ''Only one dimension is specified, the number of columns will not be validated'']), s)
   \<and> visit (Tree Rule_dimensions_line
        [Msg w, Tree Rule_dimensions_missing_column [Data (TokenData t (LInt r))]]) s =
     (Inl AttributeError, s)
   \<and> transform_and_visit float_of s ws_missing_column_line = Inl AttributeError"
proof -
  have "transform_and_visit float_of s ws_missing_column_line = Inl AttributeError"
    unfolding transform_and_visit_def transform_ws_missing_column_line
    by (simp add: dimensions_line_missing_column_after_whitespace del: visit.simps)
  then show ?thesis
    by (simp add: dimensions_missing_column_def dimensions_line_def visit_pair_def
        message_from_single step_simps)
qed

lemma dimensions_line_two_cols:
  "visit (Tree Rule_dimensions_line
        [Tree Rule_dimensions_valid
           [Data (TokenData t0 (LInt r)), Data (TokenData t1 (LInt c))]]) s =
     (Inr (RPair (VDims r c)
        (if c < min_n_columns s
         then [span_msg ERROR t1 t1
           ''The number of specified columns is smaller than the minimum expected number.'']
         else [])), s)"
  by (simp add: dimensions_valid_def dimensions_line_def visit_pair_def
      message_from_single step_simps)

lemma metadata_two_cols:
  "visit (Tree Rule_metadata
        [Tree Rule_name_line [Data (TokenData tn (LStr nm))],
         Tree Rule_dimensions_line
           [Tree Rule_dimensions_valid
              [Data (TokenData t0 (LInt r)), Data (TokenData t1 (LInt c))]]]) s =
     (Inr (RPair (VMetadata \<lparr>name = nm, n_rows = r, n_columns = c\<rparr>)
        (if c < min_n_columns s
         then [span_msg ERROR t1 t1
           ''The number of specified columns is smaller than the minimum expected number.'']
         else [])), s)"
  by (simp add: metadata_def name_line_def filter_msgs_def dimensions_valid_def
      dimensions_line_def visit_pair_def message_from_single step_simps)

text \<open>
  C7. For a dimension line of exactly two integers \<open>r\<close> and \<open>c\<close> without leading
  whitespace, the line yields \<open>(r, c)\<close>, and the metadata node of a plain name line
  followed by it yields \<open>Metadata(name, r, c)\<close>. There is no diagnostic when \<open>c\<close> is
  at least the minimum column count, and exactly one ERROR, on the token of \<open>c\<close>,
  when it is below; \<open>n_columns\<close> is \<open>c\<close> in both cases.
\<close>

theorem metadata_two_integer_dimensions:
  "visit (Tree Rule_dimensions_line
        [Tree Rule_dimensions_valid
           [Data (TokenData t0 (LInt r)), Data (TokenData t1 (LInt c))]]) s =
     (Inr (RPair (VDims r c)
        (if c < min_n_columns s
         then [span_msg ERROR t1 t1
           ''The number of specified columns is smaller than the minimum expected number.'']
         else [])), s)
   \<and> visit (Tree Rule_metadata
        [Tree Rule_name_line [Data (TokenData tn (LStr nm))],
         Tree Rule_dimensions_line
           [Tree Rule_dimensions_valid
              [Data (TokenData t0 (LInt r)), Data (TokenData t1 (LInt c))]]]) s =
     (Inr (RPair (VMetadata \<lparr>name = nm, n_rows = r, n_columns = c\<rparr>)
        (if c < min_n_columns s
         then [span_msg ERROR t1 t1
           ''The number of specified columns is smaller than the minimum expected number.'']
         else [])), s)"
  using dimensions_line_two_cols [of t0 r t1 c s] metadata_two_cols [of tn nm t0 r t1 c s]
  by (rule conjI)

lemma dimensions_exceeding_columns_result:
  "visit (Tree Rule_dimensions_exceeding_columns
       (Tree Rule_dimensions_valid
          [Data (TokenData t0 (LInt r)), Data (TokenData t1 (LInt c))]
        # Data (TokenData t2 d2) # extras)) s =
     (Inr (RPair (VDims r c)
        ((if c < min_n_columns s
          then [span_msg ERROR t1 t1
            ''The number of specified columns is smaller than the minimum expected number.'']
          else [])
         @ [span_msg WARNING t2 t2
            ''Too many columns specified, the excess columns will be ignored.''])), s)"
  by (simp add: dimensions_valid_def dimensions_exceeding_columns_def
      visit_pair_def message_from_single step_simps)

text \<open>
  C3 (as amended). A dimension line with more than two integers yields its first
  two integers, and after whatever the two-integer prefix reports, one WARNING
  in all, placed on the first excess integer, however many excess integers
  follow.
\<close>

theorem dimensions_exceeding_columns_one_warning:
  "fst (visit (Tree Rule_dimensions_exceeding_columns
       (Tree Rule_dimensions_valid
          [Data (TokenData t0 (LInt r)), Data (TokenData t1 (LInt c))]
        # Data (TokenData t2 d2) # extras)) s) =
     Inr (RPair (VDims r c)
        ((if c < min_n_columns s
          then [span_msg ERROR t1 t1
            ''The number of specified columns is smaller than the minimum expected number.'']
          else [])
         @ [span_msg WARNING t2 t2
            ''Too many columns specified, the excess columns will be ignored.'']))
   \<and> length (filter (\<lambda>m. level m = WARNING)
        (diags_of (fst (visit (Tree Rule_dimensions_exceeding_columns
          (Tree Rule_dimensions_valid
             [Data (TokenData t0 (LInt r)), Data (TokenData t1 (LInt c))]
           # Data (TokenData t2 d2) # extras)) s)))) = 1"
  by (simp add: dimensions_exceeding_columns_result span_msg_def del: visit.simps)

text \<open>
  C3 (as stated) fails: the line \<^verbatim>\<open>5 12 18 7\<close> has two excess integers and gets
  one WARNING, not two.
\<close>

theorem two_excess_integers_one_warning:
  "length (filter (\<lambda>m. level m = WARNING)
      (diags_of (fst (visit exceeding_example (init False))))) = 1"
  by (simp add: exceeding_example_def dimensions_exceeding_columns_result span_msg_def init_def
      del: visit.simps)

lemma message_from_tokens_all:
  "message_from_tokens (map Tok (t # ts)) lvl rsn = Inr (span_msg lvl t (last (t # ts)) rsn)"
proof -
  have "item (map Tok (t # ts)) (- 1) = Inr (Tok (last (t # ts)) :: 'a node)"
    by (simp add: item_last last_map)
  moreover have "item (map Tok (t # ts)) 0 = Inr (Tok t :: 'a node)"
    by (simp add: item_first)
  ultimately show ?thesis
    by (simp add: message_from_tokens_def span_msg_def and_then_Inr)
qed

lemma invalid_block_result:
  "visit (Tree Rule_invalid_block (map Tok (t # ts))) s =
     (Inr (RMsg (span_msg ERROR t (last (t # ts))
        ''Invalid block of data will be ignored.'')), s)"
  by (simp add: invalid_block_def message_from_tokens_all and_then_Inr del: list.map)

section \<open>Invalid blocks\<close>

lemma point_invalid_result:
  "visit (Tree Rule_point_invalid [Data (TokenData t d)]) s =
     (Inr (RPair VNone
        [span_msg ERROR t t
           ''No point can be constructed from only a single value, row will be skipped'']), s)"
  by (simp add: point_invalid_def message_from_single step_simps)

lemma invalid_block_after_name_line:
  "visit (Tree Rule_invalid_block (Tree Rule_name_line ncs # cs)) s = (Inl AttributeError, s)"
  by (simp add: invalid_block_def message_from_tokens_def step_simps)

lemma transform_name_led_invalid_block:
  "transform float_of name_led_invalid_block =
     Inr (Tree Rule_invalid_block
       [Tree Rule_name_line
          [Data (TokenData (mk_token T_NAME ''woo this should be an invalid block'' 1 1 1 36)
                   (LStr ''woo this should be an invalid block''))],
        Tok (mk_token T_INVALID_BLOCK (''because this should not exist.'' @ [CHR 0x0A])
               2 1 3 1)])"
  by (simp add: name_led_invalid_block_def transform_token_def mk_token_def step_simps)

text \<open>
  C5. The specification asks that interpreting an \<^verbatim>\<open>invalid_block\<close> gives a pair of
  an absent value and a list holding exactly one ERROR that spans the whole
  matched token range. The grammar is \<^verbatim>\<open>invalid_block: name_line? INVALID_BLOCK\<close>, and
  a name line is a tree. The method, whose comment says that an invalid block
  consists of tokens only, reads \<^verbatim>\<open>.line\<close> of its first child: on every block that
  starts with a name line, the last block of the repository's own test file
  among them, it ends in an \<^verbatim>\<open>AttributeError\<close> and reports nothing. On a block made
  of tokens only it returns the ERROR with the span asked for, as a bare
  message and not inside a pair.
\<close>

theorem invalid_block_with_name_line_raises:
  "visit (Tree Rule_invalid_block (Tree Rule_name_line ncs # cs)) s = (Inl AttributeError, s)
   \<and> transform_and_visit float_of s name_led_invalid_block = Inl AttributeError
   \<and> visit (Tree Rule_invalid_block (map Tok (t # ts))) s =
       (Inr (RMsg (span_msg ERROR t (last (t # ts))
          ''Invalid block of data will be ignored.'')), s)"
proof -
  have "transform_and_visit float_of s name_led_invalid_block = Inl AttributeError"
    unfolding transform_and_visit_def transform_name_led_invalid_block
    by (simp add: invalid_block_after_name_line del: visit.simps)
  then show ?thesis
    by (simp add: invalid_block_after_name_line invalid_block_result del: visit.simps list.map)
qed

section \<open>Leading whitespace on a dimension line\<close>

lemma py_int_23: "py_int ''23'' = Some 23"
  by (simp add: py_int_def is_digit_def)

lemma dimensions_line_after_whitespace:
  "visit (Tree Rule_dimensions_line
       [Msg w, Tree Rule_dimensions_valid
                 [Data (TokenData t0 (LInt r)), Data (TokenData t1 (LInt c))]]) s =
     (Inl AttributeError, s)"
  by (simp add: dimensions_line_def dimensions_valid_def visit_pair_def
      message_from_single step_simps)

text \<open>
  C9. The specification asks that a \<^verbatim>\<open>dimensions_line\<close> tree that starts with
  whitespace is interpreted without an exception, with a WARNING added. The
  transformer has already replaced the whitespace token by a \<^verbatim>\<open>ParseMsg\<close>, and
  \<^verbatim>\<open>dimensions_line\<close> reads \<^verbatim>\<open>tree.children[0].token\<close>, an attribute a \<^verbatim>\<open>ParseMsg\<close> does
  not have: on the line \<^verbatim>\<open>"      5    23\n"\<close> of the tests the interpretation ends
  in an \<^verbatim>\<open>AttributeError\<close>, whatever the interpreter's configuration.
\<close>

theorem dimensions_line_leading_whitespace_raises:
  "transform float_of ws_dimensions_line =
     Inr (Tree Rule_dimensions_line
       [Msg (span_msg WARNING (mk_token T_WS ''      '' 1 1 1 7) (mk_token T_WS ''      '' 1 1 1 7)
               ''Unexpected empty whitespace will be ignored.''),
        Tree Rule_dimensions_valid
          [Data (TokenData (mk_token T_INT ''5'' 1 7 1 8) (LInt 5)),
           Data (TokenData (mk_token T_INT ''23'' 1 12 1 14) (LInt 23))]])
   \<and> transform_and_visit float_of s ws_dimensions_line = Inl AttributeError"
proof -
  have t: "transform float_of ws_dimensions_line =
     Inr (Tree Rule_dimensions_line
       [Msg (span_msg WARNING (mk_token T_WS ''      '' 1 1 1 7) (mk_token T_WS ''      '' 1 1 1 7)
               ''Unexpected empty whitespace will be ignored.''),
        Tree Rule_dimensions_valid
          [Data (TokenData (mk_token T_INT ''5'' 1 7 1 8) (LInt 5)),
           Data (TokenData (mk_token T_INT ''23'' 1 12 1 14) (LInt 23))]])"
    by (simp add: ws_dimensions_line_def transform_token_def mk_token_def
        message_from_single step_simps py_int_5 py_int_23)
  show ?thesis
    unfolding transform_and_visit_def t
    by (simp add: dimensions_line_after_whitespace del: visit.simps)
qed

section \<open>Point rows\<close>

lemma collect_float_data:
  "collect (map data_of (map float_data tds)) = Inr (map (\<lambda>p. LFloat (snd p)) tds)"
  by (induction tds) (simp_all add: float_data_def and_then_Inr)

lemma collect_float_of_lit:
  "collect (map float_of_lit (map (\<lambda>p. LFloat (snd p)) tds)) = Inr (map snd tds)"
  by (induction tds) (simp_all add: and_then_Inr)

lemma slice_from_map: "slice_from (map f xs) i = map f (slice_from xs i)"
  by (simp add: slice_from_def drop_map)

lemma row_message_float_data:
  assumes "tds \<noteq> []"
  shows "row_message (map float_data tds) rsn =
           Inr (span_msg ERROR (fst (hd tds)) (fst (last tds)) rsn)"
proof -
  have "item (map float_data tds) 0 = Inr (float_data (hd tds))"
    using assms by (cases tds) (simp_all add: item_first)
  moreover have "item (map float_data tds) (- 1) = Inr (float_data (last tds))"
    using assms by (simp add: item_last last_map)
  ultimately show ?thesis
    by (simp add: row_message_def float_data_def and_then_Inr message_from_two)
qed

lemma point_too_few:
  assumes "2 \<le> length tds" and "int (length tds) < expected_n_columns s"
  shows "visit (Tree Rule_point (map float_data tds)) s =
     (Inr (RPair
        (VPoint \<lparr>pt_x = snd (tds ! 0), pt_y = snd (tds ! 1),
                 pt_z = (if has_z_value s \<and> 3 \<le> length tds then Some (snd (tds ! 2)) else None),
                 pt_data = map snd (slice_from tds (min_n_columns s))\<rparr>)
        [span_msg ERROR (fst (hd tds)) (fst (last tds))
           ''Not as many columns provided as specified, the created point will be missing data.'']),
      s)"
proof -
  let ?vals = "map (\<lambda>p. LFloat (snd p)) tds"
  have ne: "tds \<noteq> []" using assms(1) by auto
  have i0: "item ?vals 0 = Inr (LFloat (snd (tds ! 0)))"
    using assms(1) by (auto simp: item_def)
  have i1: "item ?vals 1 = Inr (LFloat (snd (tds ! 1)))"
    using assms(1) by (auto simp: item_def)
  have i2: "3 \<le> length tds \<Longrightarrow> item ?vals 2 = Inr (LFloat (snd (tds ! 2)))"
    by (auto simp: item_def)
  have msgs: "point_msgs (map float_data tds) (int (length tds)) s =
      Inr [span_msg ERROR (fst (hd tds)) (fst (last tds))
        ''Not as many columns provided as specified, the created point will be missing data.'']"
    using assms(2) by (simp add: point_msgs_def row_message_float_data [OF ne] and_then_Inr)
  have sl: "slice_from ?vals (min_n_columns s) =
      map (\<lambda>p. LFloat (snd p)) (slice_from tds (min_n_columns s))"
    by (rule slice_from_map)
  show ?thesis
    using i2
    by (simp add: point_def collect_float_data msgs i0 i1 sl make_point_def
        collect_float_of_lit and_then_Inr del: map_map)
qed

text \<open>
  C6. A point row of at least two values, fewer than the expected number of
  columns, still gives a \<^verbatim>\<open>Point\<close> made of the values present (\<open>z\<close> only with
  z-values configured and a third value; \<open>data\<close> the values from the minimum
  column count on) and exactly one ERROR, spanning the row. A row of exactly one
  value gives no point and exactly one ERROR.
\<close>

theorem point_row_with_missing_values:
  "(2 \<le> length (tds :: (Token \<times> 'f) list) \<and> int (length tds) < expected_n_columns s \<longrightarrow>
      visit (Tree Rule_point (map float_data tds)) s =
        (Inr (RPair
           (VPoint \<lparr>pt_x = snd (tds ! 0), pt_y = snd (tds ! 1),
                    pt_z = (if has_z_value s \<and> 3 \<le> length tds
                            then Some (snd (tds ! 2)) else None),
                    pt_data = map snd (slice_from tds (min_n_columns s))\<rparr>)
           [span_msg ERROR (fst (hd tds)) (fst (last tds))
              ''Not as many columns provided as specified, the created point will be missing data.'']),
         s))
   \<and> visit (Tree Rule_point_invalid [Data (TokenData t d) :: 'f node]) s =
        (Inr (RPair VNone
           [span_msg ERROR t t
              ''No point can be constructed from only a single value, row will be skipped'']), s)"
  using point_too_few [of tds s] point_invalid_result [of t d s] by blast

theorem point_row_with_missing_values_witness:
  "2 \<le> length [(mk_token T_FLOAT ''1.5'' 1 1 1 4, 1.5 :: real),
                 (mk_token T_FLOAT ''2.5'' 1 5 1 8, 2.5)]
   \<and> int (length [(mk_token T_FLOAT ''1.5'' 1 1 1 4, 1.5 :: real),
                    (mk_token T_FLOAT ''2.5'' 1 5 1 8, 2.5)]) < expected_n_columns (init True)
   \<and> visit (Tree Rule_point (map float_data
        [(mk_token T_FLOAT ''1.5'' 1 1 1 4, 1.5 :: real),
         (mk_token T_FLOAT ''2.5'' 1 5 1 8, 2.5)])) (init True) =
      (Inr (RPair (VPoint \<lparr>pt_x = 1.5, pt_y = 2.5, pt_z = None, pt_data = []\<rparr>)
         [span_msg ERROR (mk_token T_FLOAT ''1.5'' 1 1 1 4) (mk_token T_FLOAT ''2.5'' 1 5 1 8)
            ''Not as many columns provided as specified, the created point will be missing data.'']),
       init True)"
  using point_row_with_missing_values
    [of "[(mk_token T_FLOAT ''1.5'' 1 1 1 4, 1.5 :: real),
          (mk_token T_FLOAT ''2.5'' 1 5 1 8, 2.5)]" "init True"
        "mk_token T_FLOAT ''1.5'' 1 1 1 4" "LFloat (1.5 :: real)"]
  by (simp add: init_def slice_from_def del: visit.simps)

section \<open>The interpreter's own state\<close>

lemma visit_pair_state:
  "(\<And>st. snd (v e st) = st) \<Longrightarrow> snd (visit_pair v e s) = s"
proof -
  assume a: "\<And>st. snd (v e st) = st"
  have "snd (v e s) = s" by (rule a)
  then show ?thesis
    by (cases "v e s") (auto simp: visit_pair_def split: sum.splits)
qed

lemma visit_pair_state_eq:
  "(\<And>st. snd (v e st) = st) \<Longrightarrow> visit_pair v e s = (r, s1) \<Longrightarrow> s1 = s"
  using visit_pair_state [of v e s] by simp

lemma visit_pair_diags:
  "visit_pair v e s = (Inr (a, ms), s1) \<Longrightarrow> diags_of (fst (v e s)) = ms"
  by (cases "v e s") (auto simp: visit_pair_def split: sum.splits elim: unpack.elims)

lemma metadata_state:
  assumes "\<And>e st. e \<in> set cs \<Longrightarrow> snd (v e st) = st"
  shows "snd (metadata v cs s) = s"
proof -
  have vp: "\<And>e st. e \<in> set (filter (\<lambda>x. \<not> is_msg x) cs) \<Longrightarrow> snd (visit_pair v e st) = st"
    by (rule visit_pair_state) (simp add: assms)
  have vp': "\<And>e st r st'. e \<in> set (filter (\<lambda>x. \<not> is_msg x) cs) \<Longrightarrow> visit_pair v e st = (r, st') \<Longrightarrow> st' = st"
    using vp by (metis snd_conv)
  show ?thesis
    by (auto simp: metadata_def filter_msgs_def split: sum.splits prod.splits pyval.splits
        dest!: item_in_set dest: vp')
qed

lemma dimensions_line_state:
  assumes "\<And>e st. e \<in> set cs \<Longrightarrow> snd (v e st) = st"
  shows "snd (dimensions_line v cs s) = s"
proof -
  have vp': "\<And>e st r st'. e \<in> set cs \<Longrightarrow> visit_pair v e st = (r, st') \<Longrightarrow> st' = st"
    using visit_pair_state [of v] assms by (metis snd_conv)
  show ?thesis
    by (auto simp: dimensions_line_def split: sum.splits prod.splits
        dest!: item_in_set dest: vp')
qed

lemma dimensions_exceeding_columns_state:
  assumes "\<And>e st. e \<in> set cs \<Longrightarrow> snd (v e st) = st"
  shows "snd (dimensions_exceeding_columns v cs s) = s"
proof -
  have vp': "\<And>e st r st'. e \<in> set cs \<Longrightarrow> visit_pair v e st = (r, st') \<Longrightarrow> st' = st"
    using visit_pair_state [of v] assms by (metis snd_conv)
  show ?thesis
    by (auto simp: dimensions_exceeding_columns_def split: sum.splits prod.splits
        dest!: item_in_set dest: vp')
qed

lemma points_loop_state:
  "(\<And>e st. e \<in> set es \<Longrightarrow> snd (v e st) = st) \<Longrightarrow> snd (points_loop v es pts msgs s) = s"
proof (induction es arbitrary: pts msgs s)
  case Nil
  then show ?case by simp
next
  case (Cons e es)
  have hd: "snd (visit_pair v e s) = s"
    by (rule visit_pair_state) (simp add: Cons.prems)
  have ih: "\<And>pts msgs. snd (points_loop v es pts msgs s) = s"
    by (rule Cons.IH) (simp add: Cons.prems)
  show ?case
    using hd by (cases "visit_pair v e s") (auto simp: ih split: sum.splits pyval.splits)
qed

lemma points_state:
  assumes "\<And>e st. e \<in> set cs \<Longrightarrow> snd (v e st) = st"
  shows "snd (points v cs s) = s"
  unfolding points_def filter_msgs_def prod.case
  by (rule points_loop_state) (simp add: assms)

lemma visit_each_state:
  "(\<And>e st. e \<in> set es \<Longrightarrow> snd (v e st) = st) \<Longrightarrow> snd (visit_each v es s) = s"
proof (induction es arbitrary: s)
  case Nil
  then show ?case by simp
next
  case (Cons e es)
  have hd: "snd (v e s) = s" by (simp add: Cons.prems)
  have ih: "snd (visit_each v es s) = s"
    by (rule Cons.IH) (simp add: Cons.prems)
  show ?case
    using hd ih by (cases "v e s"; cases "visit_each v es s") (auto split: sum.splits)
qed

lemma poly_block_state:
  assumes "\<And>e st. e \<in> set cs \<Longrightarrow> snd (v e st) = st"
  shows "snd (poly_block v cs s) = s"
proof -
  have "snd (visit_each v (filter (\<lambda>x. \<not> is_msg x) cs) s) = s"
    by (rule visit_each_state) (simp add: assms)
  then show ?thesis
    by (cases "visit_each v (filter (\<lambda>x. \<not> is_msg x) cs) s")
       (auto simp: poly_block_def filter_msgs_def split: sum.splits list.splits)
qed

lemma visit_state: "snd (visit t s) = s"
proof (induction t s rule: visit.induct)
  case (2 cs s)
  then show ?case by (simp add: metadata_state)
next
  case (4 cs s)
  then show ?case by (simp add: dimensions_line_state)
next
  case (6 cs s)
  then show ?case by (simp add: dimensions_exceeding_columns_state)
next
  case (10 cs s)
  then show ?case by (simp add: points_state)
next
  case (11 cs s)
  then show ?case by (simp add: poly_block_state)
qed (simp_all add: description_header_def name_line_def dimensions_valid_def
      dimensions_missing_column_def point_def point_invalid_def invalid_block_def
      poly_file_def split: prod.splits)

text \<open>
  C10. No visit method assigns to a field of the interpreter: whatever the tree
  (as far as the model reaches, that is unless the outcome is \<open>IllTyped\<close>) and
  whatever the configuration, including an expected column count set from
  outside, the interpreter after a visit is the interpreter before it, and
  visiting the same tree again gives the same result.
\<close>

theorem visit_leaves_interpreter_unchanged:
  "fst (visit t s) \<noteq> Inl IllTyped \<longrightarrow>
     snd (visit t s) = s \<and> visit t (snd (visit t s)) = visit t s"
  by (simp add: visit_state)

theorem visit_leaves_interpreter_unchanged_witness:
  "fst (visit exceeding_example (init False)) \<noteq> Inl IllTyped
   \<and> snd (visit exceeding_example (init False)) = init False
   \<and> visit exceeding_example (snd (visit exceeding_example (init False))) =
       visit exceeding_example (init False)"
proof -
  have "fst (visit exceeding_example (init False)) \<noteq> Inl IllTyped"
    by (simp add: exceeding_example_def dimensions_exceeding_columns_result del: visit.simps)
  then show ?thesis
    using visit_leaves_interpreter_unchanged [of exceeding_example "init False"] by blast
qed

section \<open>The order of the diagnostics\<close>

lemma points_loop_msgs:
  assumes st: "\<And>e st. snd (v e st) = st"
  shows "points_loop v es pts msgs s = (Inr (RPair a ms), s') \<Longrightarrow>
         ms = msgs @ concat (map (\<lambda>e. diags_of (fst (v e s))) es)"
proof (induction es arbitrary: pts msgs)
  case Nil
  then show ?case by simp
next
  case (Cons e es)
  from Cons.prems obtain pt pt_msgs s1 where vp: "visit_pair v e s = (Inr (pt, pt_msgs), s1)"
    by (cases "visit_pair v e s") (auto split: sum.splits)
  have s1: "s1 = s" using st vp by (rule visit_pair_state_eq)
  have d: "diags_of (fst (v e s)) = pt_msgs" using vp by (rule visit_pair_diags)
  from Cons.prems vp s1 obtain pts' where
    rest: "points_loop v es pts' (msgs @ pt_msgs) s = (Inr (RPair a ms), s')"
    by (auto split: pyval.splits)
  have "ms = (msgs @ pt_msgs) @ concat (map (\<lambda>e. diags_of (fst (v e s))) es)"
    using rest by (rule Cons.IH)
  then show ?case by (simp add: d)
qed

lemma points_msgs_order:
  "visit (Tree Rule_points cs) s = (Inr (RPair a ms), s') \<Longrightarrow>
   ms = the_msgs cs @ concat (map (\<lambda>e. diags_of (fst (visit e s))) (filter (\<lambda>x. \<not> is_msg x) cs))"
  by (simp add: points_def filter_msgs_def) (rule points_loop_msgs, rule visit_state, assumption)

lemma metadata_msgs_order:
  assumes "visit (Tree Rule_metadata cs) s = (Inr (RPair a ms), s')"
  shows "\<exists>e0 e1 rest. filter (\<lambda>x. \<not> is_msg x) cs = e0 # e1 # rest \<and>
           ms = the_msgs cs @ diags_of (fst (visit e0 s)) @ diags_of (fst (visit e1 s))"
proof -
  let ?elems = "filter (\<lambda>x. \<not> is_msg x) cs"
  from assms obtain e0 where e0: "item ?elems 0 = Inr e0"
    by (auto simp: metadata_def filter_msgs_def split: sum.splits)
  from assms e0 obtain nm name_msgs s1 where v0: "visit_pair visit e0 s = (Inr (nm, name_msgs), s1)"
    by (auto simp: metadata_def filter_msgs_def split: sum.splits prod.splits)
  have s1: "s1 = s" using visit_state v0 by (rule visit_pair_state_eq)
  from assms e0 v0 obtain e1 where e1: "item ?elems 1 = Inr e1"
    by (auto simp: metadata_def filter_msgs_def split: sum.splits)
  from assms e0 v0 e1 s1 obtain dims dimensions_msgs s2 where
    v1: "visit_pair visit e1 s = (Inr (dims, dimensions_msgs), s2)"
    by (auto simp: metadata_def filter_msgs_def split: sum.splits prod.splits)
  have ms: "ms = the_msgs cs @ name_msgs @ dimensions_msgs"
    using assms e0 v0 e1 v1 s1
    by (auto simp: metadata_def filter_msgs_def split: pyval.splits)
  have shape: "\<exists>rest. ?elems = e0 # e1 # rest"
    using e0 e1 by (cases ?elems; cases "tl ?elems") (auto simp: item_def split: if_splits)
  show ?thesis
    using shape ms visit_pair_diags [OF v0] visit_pair_diags [OF v1] by auto
qed

lemma decimal_value_1: "decimal_value ''1.0'' = 1"
  by (simp add: decimal_value_def py_int_def is_digit_def)

lemma decimal_value_2: "decimal_value ''2.0'' = 2"
  by (simp add: decimal_value_def py_int_def is_digit_def)

lemma py_int_3: "py_int ''3'' = Some 3"
  by (simp add: py_int_def is_digit_def)

lemma transform_blank_between_rows:
  "transform decimal_value blank_between_rows = Inr (Tree Rule_points rows_children)"
  by (simp add: blank_between_rows_def rows_children_def transform_token_def mk_token_def
      message_from_single step_simps decimal_value_1 decimal_value_2)

lemma transform_blank_after_name:
  "transform decimal_value blank_after_name = Inr (Tree Rule_metadata name_children)"
  by (simp add: blank_after_name_def name_children_def transform_token_def mk_token_def
      message_from_single step_simps py_int_3)

lemma visit_rows_children:
  "visit (Tree Rule_points rows_children) (init False) =
     (Inr (RPair (VPoints [])
        [\<lparr>level = WARNING, line = (2, 3), column = (1, 1),
           reason = ''Unexpected empty lines will be ignored.''\<rparr>,
         \<lparr>level = ERROR, line = (1, 1), column = (1, 4),
           reason = ''No point can be constructed from only a single value, row will be skipped''\<rparr>,
         \<lparr>level = ERROR, line = (3, 3), column = (1, 4),
           reason = ''No point can be constructed from only a single value, row will be skipped''\<rparr>]),
      init False)"
  by (simp add: rows_children_def points_def filter_msgs_def visit_pair_def point_invalid_def
      message_from_single step_simps span_msg_def mk_token_def)

lemma visit_name_children:
  "visit (Tree Rule_metadata name_children) (init False) =
     (Inr (RPair (VMetadata \<lparr>name = ''myName'', n_rows = 3, n_columns = 3\<rparr>)
        [\<lparr>level = WARNING, line = (2, 3), column = (1, 1),
           reason = ''Unexpected empty lines will be ignored.''\<rparr>,
         \<lparr>level = WARNING, line = (1, 1), column = (1, 3),
           reason = ''Unexpected empty whitespace will be ignored.''\<rparr>]),
      init False)"
  by (simp add: name_children_def metadata_def name_line_def dimensions_line_def
      dimensions_valid_def filter_msgs_def visit_pair_def init_def
      message_from_single step_simps span_msg_def mk_token_def)

text \<open>
  C4 (as amended). The diagnostics of a \<^verbatim>\<open>points\<close> node and of a \<^verbatim>\<open>metadata\<close> node are
  first the node's own messages (the warnings the transformer has put among its
  children, blank lines for one, in their order), and then the diagnostics of its
  subtrees, from left to right: for \<^verbatim>\<open>points\<close> those of every row, for \<^verbatim>\<open>metadata\<close>
  those of the name line and then those of the dimension line.
\<close>

theorem own_messages_precede_subtree_diagnostics:
  "(visit (Tree Rule_points cs) s = (Inr (RPair a ms), s') \<longrightarrow>
      ms = the_msgs cs @
           concat (map (\<lambda>e. diags_of (fst (visit e s))) (filter (\<lambda>x. \<not> is_msg x) cs)))
   \<and> (visit (Tree Rule_metadata cs) s = (Inr (RPair a ms), s') \<longrightarrow>
      (\<exists>e0 e1 rest. filter (\<lambda>x. \<not> is_msg x) cs = e0 # e1 # rest \<and>
         ms = the_msgs cs @ diags_of (fst (visit e0 s)) @ diags_of (fst (visit e1 s))))"
  using points_msgs_order [of cs s a ms s'] metadata_msgs_order [of cs s a ms s'] by blast

theorem own_messages_precede_subtree_diagnostics_witness:
  "visit (Tree Rule_points rows_children) (init False) =
     (Inr (RPair (VPoints [])
        [\<lparr>level = WARNING, line = (2, 3), column = (1, 1),
           reason = ''Unexpected empty lines will be ignored.''\<rparr>,
         \<lparr>level = ERROR, line = (1, 1), column = (1, 4),
           reason = ''No point can be constructed from only a single value, row will be skipped''\<rparr>,
         \<lparr>level = ERROR, line = (3, 3), column = (1, 4),
           reason = ''No point can be constructed from only a single value, row will be skipped''\<rparr>]),
      init False)
   \<and> [\<lparr>level = WARNING, line = (2, 3), column = (1, 1),
           reason = ''Unexpected empty lines will be ignored.''\<rparr>,
        \<lparr>level = ERROR, line = (1, 1), column = (1, 4),
           reason = ''No point can be constructed from only a single value, row will be skipped''\<rparr>,
        \<lparr>level = ERROR, line = (3, 3), column = (1, 4),
           reason = ''No point can be constructed from only a single value, row will be skipped''\<rparr>] =
       the_msgs rows_children @
       concat (map (\<lambda>e. diags_of (fst (visit e (init False))))
                (filter (\<lambda>x. \<not> is_msg x) rows_children))
   \<and> visit (Tree Rule_metadata name_children) (init False) =
     (Inr (RPair (VMetadata \<lparr>name = ''myName'', n_rows = 3, n_columns = 3\<rparr>)
        [\<lparr>level = WARNING, line = (2, 3), column = (1, 1),
           reason = ''Unexpected empty lines will be ignored.''\<rparr>,
         \<lparr>level = WARNING, line = (1, 1), column = (1, 3),
           reason = ''Unexpected empty whitespace will be ignored.''\<rparr>]),
      init False)
   \<and> (\<exists>e0 e1 rest. filter (\<lambda>x. \<not> is_msg x) name_children = e0 # e1 # rest \<and>
        [\<lparr>level = WARNING, line = (2, 3), column = (1, 1),
           reason = ''Unexpected empty lines will be ignored.''\<rparr>,
         \<lparr>level = WARNING, line = (1, 1), column = (1, 3),
           reason = ''Unexpected empty whitespace will be ignored.''\<rparr>] =
        the_msgs name_children @ diags_of (fst (visit e0 (init False))) @
        diags_of (fst (visit e1 (init False))))"
  using own_messages_precede_subtree_diagnostics
          [of rows_children "init False" _ _ "init False"]
        own_messages_precede_subtree_diagnostics
          [of name_children "init False" _ _ "init False"]
        visit_rows_children visit_name_children
  by blast

text \<open>
  C4 (as stated) fails. In \<^verbatim>\<open>"1.0\n\n2.0\n"\<close> the blank line lies between the two rows,
  and its WARNING comes first in the list, before the ERROR of either row. In
  \<^verbatim>\<open>"  myName\n\n3 3\n"\<close> the blank line follows the name line, and its WARNING
  precedes the name line's WARNING.
\<close>

theorem blank_line_warning_comes_first:
  "transform_and_visit decimal_value (init False) blank_between_rows =
     Inr (RPair (VPoints [])
        [\<lparr>level = WARNING, line = (2, 3), column = (1, 1),
           reason = ''Unexpected empty lines will be ignored.''\<rparr>,
         \<lparr>level = ERROR, line = (1, 1), column = (1, 4),
           reason = ''No point can be constructed from only a single value, row will be skipped''\<rparr>,
         \<lparr>level = ERROR, line = (3, 3), column = (1, 4),
           reason = ''No point can be constructed from only a single value, row will be skipped''\<rparr>])
   \<and> transform_and_visit decimal_value (init False) blank_after_name =
     Inr (RPair (VMetadata \<lparr>name = ''myName'', n_rows = 3, n_columns = 3\<rparr>)
        [\<lparr>level = WARNING, line = (2, 3), column = (1, 1),
           reason = ''Unexpected empty lines will be ignored.''\<rparr>,
         \<lparr>level = WARNING, line = (1, 1), column = (1, 3),
           reason = ''Unexpected empty whitespace will be ignored.''\<rparr>])"
  by (simp add: transform_and_visit_def transform_blank_between_rows transform_blank_after_name
      visit_rows_children visit_name_children del: visit.simps)

section \<open>The round-trip block\<close>

lemma transform_float_row:
  "transform float_of (float_row l a b c) = Inr (float_row_tree float_of l a b c)"
  by (simp add: float_row_def float_row_tree_def transform_token_def mk_token_def step_simps)

lemma transform_roundtrip_block:
  "transform float_of roundtrip_block = Inr (roundtrip_tree float_of)"
  by (simp add: roundtrip_block_def roundtrip_tree_def transform_float_row transform_token_def
      mk_token_def step_simps py_int_3 rstrip_def is_space_def)

lemma visit_float_row:
  "visit (float_row_tree float_of l a b c) s =
     (Inr (RPair
        (VPoint \<lparr>pt_x = float_of a, pt_y = float_of b,
                 pt_z = (if has_z_value s then Some (float_of c) else None),
                 pt_data = map float_of (slice_from [a, b, c] (min_n_columns s))\<rparr>)
        (if 3 < expected_n_columns s
         then [\<lparr>level = ERROR, line = (l, l), column = (1, 12), reason =
   ''Not as many columns provided as specified, the created point will be missing data.''\<rparr>]
         else if 3 > expected_n_columns s
         then [\<lparr>level = ERROR, line = (l, l), column = (1, 12), reason =
   ''Too many columns provided as specified, the created point will contain too much data.''\<rparr>]
         else [])), s)"
proof -
  have c: "collect (map float_of_lit (slice_from [LFloat (float_of a), LFloat (float_of b),
              LFloat (float_of c)] i)) = Inr (map float_of (slice_from [a, b, c] i))" for i
  proof -
    have "slice_from [LFloat (float_of a), LFloat (float_of b), LFloat (float_of c)] i =
          map (\<lambda>t. LFloat (float_of t)) (slice_from [a, b, c] i)"
      using slice_from_map [of "\<lambda>t. LFloat (float_of t)" "[a, b, c]" i] by simp
    moreover have "collect (map float_of_lit (map (\<lambda>t. LFloat (float_of t)) ts)) =
          Inr (map float_of ts)" for ts :: "string list"
      by (induction ts) (simp_all add: and_then_Inr)
    ultimately show ?thesis by simp
  qed
  show ?thesis
    by (simp add: float_row_tree_def point_def point_msgs_def row_message_def make_point_def
        message_from_two span_msg_def mk_token_def step_simps c)
qed

lemma float_row_tree_no_msg:
  "is_msg (float_row_tree float_of l a b c) = False"
  "the_msgs (float_row_tree float_of l a b c # ns) = the_msgs ns"
  by (simp_all add: float_row_tree_def)

lemma visit_roundtrip_prefix:
  "visit (Tree Rule_description_header [Comment \<lparr>comment_content = '' desc''\<rparr>]) s =
     (Inr (RPair (VDescription \<lparr>content = '' desc''\<rparr>) []), s)"
  by (simp add: description_header_def filter_msgs_def step_simps)

text \<open>
  C2 (as amended). With z-values enabled the round-trip block gives one
  \<^verbatim>\<open>PolyObject\<close> with description \<^verbatim>\<open>" desc"\<close>, metadata (myName, 3, 3) and the points
  (1,2,3), (4,5,6), (7,8,9) with empty extra data, and no diagnostic. With
  z-values disabled the points have no \<open>z\<close> and the data [3.0], [6.0], [9.0], and
  every row, having three values where two are expected, gets one ERROR: three
  diagnostics in all. They disappear only when the caller has set the expected
  column count to 3 before the visit.
\<close>

theorem roundtrip_block_interpretation:
  "transform_and_visit float_of (init True) roundtrip_block =
     Inr (RPair
        (VPolyObject
          \<lparr>obj_description = Some \<lparr>content = '' desc''\<rparr>,
           obj_metadata = \<lparr>name = ''myName'', n_rows = 3, n_columns = 3\<rparr>,
           obj_points =
             [\<lparr>pt_x = float_of ''1.0'', pt_y = float_of ''2.0'', pt_z = Some (float_of ''3.0''),
                pt_data = []\<rparr>,
              \<lparr>pt_x = float_of ''4.0'', pt_y = float_of ''5.0'', pt_z = Some (float_of ''6.0''),
                pt_data = []\<rparr>,
              \<lparr>pt_x = float_of ''7.0'', pt_y = float_of ''8.0'', pt_z = Some (float_of ''9.0''),
                pt_data = []\<rparr>]\<rparr>)
        [])
   \<and> transform_and_visit float_of (init False) roundtrip_block =
     Inr (RPair
        (VPolyObject
          \<lparr>obj_description = Some \<lparr>content = '' desc''\<rparr>,
           obj_metadata = \<lparr>name = ''myName'', n_rows = 3, n_columns = 3\<rparr>,
           obj_points =
             [\<lparr>pt_x = float_of ''1.0'', pt_y = float_of ''2.0'', pt_z = None,
                pt_data = [float_of ''3.0'']\<rparr>,
              \<lparr>pt_x = float_of ''4.0'', pt_y = float_of ''5.0'', pt_z = None,
                pt_data = [float_of ''6.0'']\<rparr>,
              \<lparr>pt_x = float_of ''7.0'', pt_y = float_of ''8.0'', pt_z = None,
                pt_data = [float_of ''9.0'']\<rparr>]\<rparr>)
        [\<lparr>level = ERROR, line = (4, 4), column = (1, 12),
            reason = ''Too many columns provided as specified, the created point will contain too much data.''\<rparr>,
          \<lparr>level = ERROR, line = (5, 5), column = (1, 12),
            reason = ''Too many columns provided as specified, the created point will contain too much data.''\<rparr>,
          \<lparr>level = ERROR, line = (6, 6), column = (1, 12),
            reason = ''Too many columns provided as specified, the created point will contain too much data.''\<rparr>])
   \<and> transform_and_visit float_of ((init False)\<lparr>expected_n_columns := 3\<rparr>) roundtrip_block =
     Inr (RPair
        (VPolyObject
          \<lparr>obj_description = Some \<lparr>content = '' desc''\<rparr>,
           obj_metadata = \<lparr>name = ''myName'', n_rows = 3, n_columns = 3\<rparr>,
           obj_points =
             [\<lparr>pt_x = float_of ''1.0'', pt_y = float_of ''2.0'', pt_z = None,
                pt_data = [float_of ''3.0'']\<rparr>,
              \<lparr>pt_x = float_of ''4.0'', pt_y = float_of ''5.0'', pt_z = None,
                pt_data = [float_of ''6.0'']\<rparr>,
              \<lparr>pt_x = float_of ''7.0'', pt_y = float_of ''8.0'', pt_z = None,
                pt_data = [float_of ''9.0'']\<rparr>]\<rparr>)
        [])"
  by (simp add: transform_and_visit_def transform_roundtrip_block roundtrip_tree_def
      visit_float_row float_row_tree_no_msg visit_roundtrip_prefix metadata_two_cols
      poly_block_def points_def filter_msgs_def visit_pair_def make_poly_object_def
      init_def slice_from_def step_simps del: visit.simps add: visit.simps(10, 11))

text \<open>
  C2 (as stated) fails in its second half: with z-values disabled and nothing
  else set, interpreting the round-trip block gives three ERROR diagnostics, not
  none.
\<close>

theorem roundtrip_without_z_has_diagnostics:
  "diags_of (transform_and_visit decimal_value (init False) roundtrip_block) =
     [\<lparr>level = ERROR, line = (4, 4), column = (1, 12),
            reason = ''Too many columns provided as specified, the created point will contain too much data.''\<rparr>,
          \<lparr>level = ERROR, line = (5, 5), column = (1, 12),
            reason = ''Too many columns provided as specified, the created point will contain too much data.''\<rparr>,
          \<lparr>level = ERROR, line = (6, 6), column = (1, 12),
            reason = ''Too many columns provided as specified, the created point will contain too much data.''\<rparr>]"
  by (simp add: transform_and_visit_def transform_roundtrip_block roundtrip_tree_def
      visit_float_row float_row_tree_no_msg visit_roundtrip_prefix metadata_two_cols
      poly_block_def points_def filter_msgs_def visit_pair_def make_poly_object_def
      init_def slice_from_def step_simps del: visit.simps add: visit.simps(10, 11))

end
